theory Spec2Isabelle
  imports Complex_Main "HOL-Library.Char_ord" "HOL-Library.List_Lexorder"
begin

section \<open>Tabular data as pandas holds it\<close>

text \<open>
  The two programs, \<^verbatim>\<open>build_db.py\<close> and \<^verbatim>\<open>app.py\<close>, are sequences of pandas
  calls. Each call is embedded as a HOL function over the values pandas computes with
  (pandas 2.x semantics, the release line the repository was written against).

  A cell of a frame read by \<^verbatim>\<open>pd.read_csv\<close> is a missing value (\<open>NaN\<close>), a string or
  a number; \<open>PyNone\<close> is Python's \<^verbatim>\<open>None\<close>, which \<^verbatim>\<open>str.split(expand=True)\<close> pads short
  rows with. Numbers are exact rationals: floating-point rounding is not modelled.
\<close>

datatype cell = NaN | PyNone | Str string | Num rat

record frame =
  columns :: "string list"
  rows :: "cell list list"

text \<open>A file found by \<^verbatim>\<open>DATA_DIR.glob("*.csv")\<close>: its name and what \<^verbatim>\<open>pd.read_csv\<close> returns for it.\<close>

record csv_file =
  name :: string
  read_csv :: frame

text \<open>
  Every exception of the ingestion run, as a value. \<open>ColumnMismatch\<close> is the program's own
  \<^verbatim>\<open>ValueError(f"Column mismatch in {file.name}")\<close> and carries the file name;
  \<open>LengthMismatch\<close> is the \<^verbatim>\<open>ValueError\<close> pandas raises when a frame with \<open>n\<close> columns is
  given \<open>m \<noteq> n\<close> labels ("Length mismatch: Expected axis has n elements, new values have
  m elements"); \<open>AttributeError\<close> is raised by the \<^verbatim>\<open>.str\<close> accessor on a column that does
  not hold strings; \<open>DatabaseError\<close> is raised by a query on a table that does not exist.
\<close>

datatype error =
  FileNotFoundError
  | ColumnMismatch string
  | LengthMismatch nat nat
  | AttributeError
  | DatabaseError

definition EXPECTED_COLUMNS :: "string list" where
  "EXPECTED_COLUMNS =
     [''transaction_id'', ''date'', ''account_name'', ''category_name'',
      ''type'', ''amount'', ''description'']"

subsection \<open>Shape repair (build\_db.py, lines 31-33)\<close>

text \<open>Python's \<^verbatim>\<open>s.split(",")\<close>: the fields between the commas, empty fields included.\<close>

fun split_comma :: "string \<Rightarrow> string list" where
  "split_comma [] = [[]]"
| "split_comma (c # cs) =
     (if c = CHR '','' then [] # split_comma cs
      else (case split_comma cs of
              [] \<Rightarrow> [[c]]
            | p # ps \<Rightarrow> (c # p) # ps))"

text \<open>
  The \<^verbatim>\<open>.str\<close> accessor exists on a column of dtype object only. \<^verbatim>\<open>read_csv\<close> gives a
  column dtype object when it has no row or holds a string; a column of numbers and
  missing values only is numeric.
\<close>

fun is_numeric :: "cell \<Rightarrow> bool" where
  "is_numeric NaN = True"
| "is_numeric (Num _) = True"
| "is_numeric _ = False"

definition numeric_dtype :: "cell list \<Rightarrow> bool" where
  "numeric_dtype col = (col \<noteq> [] \<and> list_all is_numeric col)"

text \<open>
  \<^verbatim>\<open>.str.split(",")\<close> on one cell: a string gives its fields, anything else gives the single
  missing value.
\<close>

fun str_split :: "cell \<Rightarrow> cell list" where
  "str_split (Str s) = map Str (split_comma s)"
| "str_split _ = [NaN]"

text \<open>
  \<^verbatim>\<open>expand=True\<close>: one column per field of the longest row. A missing row is missing in every
  column; a shorter row is padded with \<^verbatim>\<open>None\<close>.
\<close>

definition max_len :: "cell list list \<Rightarrow> nat" where
  "max_len rs = fold max (map length rs) 0"

fun pad_row :: "nat \<Rightarrow> cell list \<Rightarrow> cell list" where
  "pad_row n (NaN # _) = replicate n NaN"
| "pad_row n r = r @ replicate (n - length r) PyNone"

definition str_split_expand :: "cell list \<Rightarrow> cell list list" where
  "str_split_expand col =
     (let rs = map str_split col in map (pad_row (max_len rs)) rs)"

text \<open>The cell of a row at a column position (a frame is rectangular, so the position exists).\<close>

definition cell_at :: "cell list \<Rightarrow> nat \<Rightarrow> cell" where
  "cell_at r i = (if i < length r then r ! i else NaN)"

text \<open>
  Lines 31-33. For a frame of one column: \<^verbatim>\<open>temp[temp.columns[0]].str.split(",", expand=True)\<close>,
  then \<^verbatim>\<open>temp.columns = EXPECTED_COLUMNS\<close>, which raises unless the split frame has
  exactly as many columns as there are labels. Any other frame is left as it is.
\<close>

definition shape_repair :: "frame \<Rightarrow> error + frame" where
  "shape_repair temp =
     (if length (columns temp) = 1 then
        (let col = map (\<lambda>r. cell_at r 0) (rows temp) in
         if numeric_dtype col then Inl AttributeError
         else
           (let rs = str_split_expand col; n = max_len (map str_split col) in
            if n \<noteq> length EXPECTED_COLUMNS
            then Inl (LengthMismatch n (length EXPECTED_COLUMNS))
            else Inr \<lparr>columns = EXPECTED_COLUMNS, rows = rs\<rparr>))
      else Inr temp)"

text \<open>Lines 28-38: one iteration of the loop over the files.\<close>

definition load_file :: "csv_file \<Rightarrow> error + frame" where
  "load_file file =
     (case shape_repair (read_csv file) of
        Inl e \<Rightarrow> Inl e
      | Inr temp \<Rightarrow>
          if columns temp \<noteq> EXPECTED_COLUMNS then Inl (ColumnMismatch (name file))
          else Inr temp)"

text \<open>Lines 24-38: the loop; the first exception ends it.\<close>

fun load_files :: "csv_file list \<Rightarrow> error + frame list" where
  "load_files [] = Inr []"
| "load_files (file # files) =
     (case load_file file of
        Inl e \<Rightarrow> Inl e
      | Inr temp \<Rightarrow>
          (case load_files files of
             Inl e \<Rightarrow> Inl e
           | Inr df_list \<Rightarrow> Inr (temp # df_list)))"

subsection \<open>Field cleaning (build\_db.py, lines 41-48)\<close>

text \<open>
  A parsed date is a timestamp: a calendar date and the time of day (nanoseconds after
  midnight). A missing timestamp (\<^verbatim>\<open>NaT\<close>) is \<open>None\<close>.
\<close>

record timestamp =
  year :: nat
  month :: nat
  day :: nat
  nanos :: nat

text \<open>
  The value-level conversions of pandas are parameters of the model; nothing proved below
  depends on which strings they accept.
  \<^item> \<open>to_datetime col c\<close> is the value \<^verbatim>\<open>pd.to_datetime(col, errors="coerce")\<close> gives the cell
    \<open>c\<close> of the column \<open>col\<close> (pandas guesses the format from the column): a timestamp, or
    \<open>None\<close> where the cell does not parse.
  \<^item> \<open>to_numeric c\<close> is the value \<^verbatim>\<open>pd.to_numeric(_, errors="coerce")\<close> gives a cell: a
    number, or \<open>None\<close> where the cell does not parse.
  \<^item> \<open>str_num q\<close> is Python's \<^verbatim>\<open>str\<close> of a number.
\<close>

record conversions =
  to_datetime :: "cell list \<Rightarrow> cell \<Rightarrow> timestamp option"
  to_numeric :: "cell \<Rightarrow> rat option"
  str_num :: "rat \<Rightarrow> string"

text \<open>
  \<^verbatim>\<open>astype(str)\<close> applies Python's \<^verbatim>\<open>str\<close> to every cell: the missing value becomes the
  text \<^verbatim>\<open>nan\<close>, \<^verbatim>\<open>None\<close> becomes the text \<^verbatim>\<open>None\<close>.
\<close>

fun astype_str :: "conversions \<Rightarrow> cell \<Rightarrow> string" where
  "astype_str P NaN = ''nan''"
| "astype_str P PyNone = ''None''"
| "astype_str P (Str s) = s"
| "astype_str P (Num q) = str_num P q"

text \<open>
  \<^verbatim>\<open>str.strip()\<close> removes leading and trailing whitespace. Strings are byte strings here;
  the whitespace characters are the ASCII ones of Python's \<^verbatim>\<open>str.isspace\<close>.
\<close>

definition is_space :: "char \<Rightarrow> bool" where
  "is_space c = (of_char c \<in> {9, 10, 11, 12, 13, 28, 29, 30, 31, 32 :: nat})"

definition strip :: "string \<Rightarrow> string" where
  "strip s = rev (dropWhile is_space (rev (dropWhile is_space s)))"

fun index_of :: "'a list \<Rightarrow> 'a \<Rightarrow> nat" where
  "index_of [] x = 0"
| "index_of (y # ys) x = (if x = y then 0 else Suc (index_of ys x))"

text \<open>\<^verbatim>\<open>df[label]\<close> for one row of a frame whose columns are \<open>EXPECTED_COLUMNS\<close>.\<close>

definition get :: "cell list \<Rightarrow> string \<Rightarrow> cell" where
  "get r label = cell_at r (index_of EXPECTED_COLUMNS label)"

text \<open>Line 41: the accepted frames all have the canonical columns; their rows are stacked.\<close>

definition pd_concat :: "frame list \<Rightarrow> cell list list" where
  "pd_concat df_list = concat (map rows df_list)"

text \<open>A row of the working frame \<^verbatim>\<open>df\<close> after cleaning.\<close>

record row =
  transaction_id :: cell
  date :: "timestamp option"
  account_name :: string
  category_name :: string
  type :: string
  amount :: "rat option"
  description :: string

definition clean_text :: "conversions \<Rightarrow> cell \<Rightarrow> string" where
  "clean_text P c = strip (astype_str P c)"

text \<open>Lines 44-48, row by row.\<close>

definition clean :: "conversions \<Rightarrow> cell list list \<Rightarrow> row list" where
  "clean P df =
     (let dates = map (\<lambda>r. get r ''date'') df in
      map (\<lambda>r.
        \<lparr>transaction_id = get r ''transaction_id'',
         date = to_datetime P dates (get r ''date''),
         account_name = clean_text P (get r ''account_name''),
         category_name = clean_text P (get r ''category_name''),
         type = clean_text P (get r ''type''),
         amount = to_numeric P (get r ''amount''),
         description = clean_text P (get r ''description'')\<rparr>) df)"

subsection \<open>Dimension tables and surrogate keys (build\_db.py, lines 51-70)\<close>

text \<open>
  \<^verbatim>\<open>drop_duplicates()\<close> keeps the first occurrence of every value, in the order of the
  frame.
\<close>

fun unique_from :: "'a list \<Rightarrow> 'a list \<Rightarrow> 'a list" where
  "unique_from seen [] = []"
| "unique_from seen (x # xs) =
     (if x \<in> set seen then unique_from seen xs else x # unique_from (x # seen) xs)"

definition drop_duplicates :: "'a list \<Rightarrow> 'a list" where
  "drop_duplicates xs = unique_from [] xs"

text \<open>The frames \<^verbatim>\<open>accounts\<close> and \<^verbatim>\<open>categories\<close>, which become the tables Accounts and Categories.\<close>

record account =
  a_account_name :: string
  a_account_id :: nat

record category =
  c_category_name :: string
  c_category_id :: nat

text \<open>
  Lines 51-52: \<^verbatim>\<open>reset_index(drop=True)\<close> numbers the distinct names from 0, and
  \<^verbatim>\<open>accounts.index + 1\<close> is the surrogate key.
\<close>

definition make_accounts :: "row list \<Rightarrow> account list" where
  "make_accounts df =
     map (\<lambda>(index, n). \<lparr>a_account_name = n, a_account_id = index + 1\<rparr>)
       (enumerate 0 (drop_duplicates (map account_name df)))"

definition make_categories :: "row list \<Rightarrow> category list" where
  "make_categories df =
     map (\<lambda>(index, n). \<lparr>c_category_name = n, c_category_id = index + 1\<rparr>)
       (enumerate 0 (drop_duplicates (map category_name df)))"

text \<open>The working frame after the first and after the second merge.\<close>

record row_a = row +
  account_id :: nat

record row_ac = row_a +
  category_id :: nat

text \<open>
  Lines 57-58: \<^verbatim>\<open>df.merge(accounts, on="account_name")\<close> is an inner join: every pair of a row
  of \<^verbatim>\<open>df\<close> and a row of \<^verbatim>\<open>accounts\<close> with the same name gives one row, in the order of
  the rows of \<^verbatim>\<open>df\<close> (an inner merge keeps the order of the left keys).
\<close>

definition merge_accounts :: "row list \<Rightarrow> account list \<Rightarrow> row_a list" where
  "merge_accounts df accounts =
     concat (map (\<lambda>r.
       map (\<lambda>a.
         \<lparr>transaction_id = transaction_id r, date = date r,
          account_name = account_name r, category_name = category_name r,
          type = type r, amount = amount r, description = description r,
          account_id = a_account_id a\<rparr>)
        (filter (\<lambda>a. a_account_name a = account_name r) accounts)) df)"

definition merge_categories :: "row_a list \<Rightarrow> category list \<Rightarrow> row_ac list" where
  "merge_categories df categories =
     concat (map (\<lambda>r.
       map (\<lambda>c.
         \<lparr>transaction_id = transaction_id r, date = date r,
          account_name = account_name r, category_name = category_name r,
          type = type r, amount = amount r, description = description r,
          account_id = account_id r, category_id = c_category_id c\<rparr>)
        (filter (\<lambda>c. c_category_name c = category_name r) categories)) df)"

text \<open>A row of the frame \<^verbatim>\<open>transactions\<close>, which becomes the table Transactions.\<close>

record transaction =
  t_transaction_id :: cell
  t_date :: "timestamp option"
  t_type :: string
  t_amount :: "rat option"
  t_description :: string
  t_account_id :: nat
  t_category_id :: nat

text \<open>Lines 60-70: the projection on the seven columns of Transactions.\<close>

definition project :: "row_ac \<Rightarrow> transaction" where
  "project r =
     \<lparr>t_transaction_id = transaction_id r, t_date = date r, t_type = type r,
      t_amount = amount r, t_description = description r,
      t_account_id = account_id r, t_category_id = category_id r\<rparr>"

record snapshot =
  accounts :: "account list"
  categories :: "category list"
  transactions :: "transaction list"

text \<open>Lines 51-70.\<close>

definition build_tables :: "row list \<Rightarrow> snapshot" where
  "build_tables df =
     (let accounts = make_accounts df;
          categories = make_categories df;
          df1 = merge_accounts df accounts;
          df2 = merge_categories df1 categories
      in \<lparr>accounts = accounts, categories = categories,
          transactions = map project df2\<rparr>)"

text \<open>Lines 19-48: the cleaned working frame \<^verbatim>\<open>df\<close>, or the exception that ends the run.\<close>

definition load_and_clean :: "conversions \<Rightarrow> csv_file list \<Rightarrow> error + row list" where
  "load_and_clean P csv_files =
     (if csv_files = [] then Inl FileNotFoundError
      else (case load_files csv_files of
              Inl e \<Rightarrow> Inl e
            | Inr df_list \<Rightarrow> Inr (clean P (pd_concat df_list))))"

text \<open>Lines 19-70: everything \<^verbatim>\<open>main\<close> computes before it opens the database.\<close>

definition build :: "conversions \<Rightarrow> csv_file list \<Rightarrow> error + snapshot" where
  "build P csv_files =
     (case load_and_clean P csv_files of
        Inl e \<Rightarrow> Inl e
      | Inr df \<Rightarrow> Inr (build_tables df))"

subsection \<open>The persisted store (build\_db.py, lines 72-78)\<close>

text \<open>The database file: each of the three tables is absent (\<open>None\<close>) or holds rows.\<close>

record database =
  Accounts :: "account list option"
  Categories :: "category list option"
  Transactions :: "transaction list option"

text \<open>The three \<^verbatim>\<open>to_sql(..., if_exists="replace")\<close> calls.\<close>

definition to_sql :: "snapshot \<Rightarrow> database \<Rightarrow> database" where
  "to_sql s db =
     db\<lparr>Accounts := Some (accounts s), Categories := Some (categories s),
        Transactions := Some (transactions s)\<rparr>"

text \<open>
  \<^verbatim>\<open>main\<close>: the result is the exception raised, if any, and the database the run leaves
  behind.
\<close>

definition main :: "conversions \<Rightarrow> csv_file list \<Rightarrow> database \<Rightarrow> (error + unit) \<times> database" where
  "main P csv_files db =
     (case build P csv_files of
        Inl e \<Rightarrow> (Inl e, db)
      | Inr s \<Rightarrow> (Inr (), to_sql s db))"


section \<open>The reporting view (app.py)\<close>

subsection \<open>Loading (app.py, lines 10-28 and 41-46)\<close>

text \<open>The columns of the load query, in the order of its \<^verbatim>\<open>SELECT\<close> list.\<close>

definition query_columns :: "string list" where
  "query_columns =
     [''transaction_id'', ''date'', ''description'', ''amount'', ''type'',
      ''account_name'', ''category_name'']"

definition select_row :: "transaction \<Rightarrow> account \<Rightarrow> category \<Rightarrow> row" where
  "select_row t a c =
     \<lparr>transaction_id = t_transaction_id t, date = t_date t,
      account_name = a_account_name a, category_name = c_category_name c,
      type = t_type t, amount = t_amount t, description = t_description t\<rparr>"

text \<open>
  \<^verbatim>\<open>FROM Transactions t JOIN Accounts a ON t.account_id = a.account_id
  JOIN Categories c ON t.category_id = c.category_id\<close>: both joins are inner joins.
\<close>

definition sql_join :: "transaction list \<Rightarrow> account list \<Rightarrow> category list \<Rightarrow> row list" where
  "sql_join ts as cs =
     concat (map (\<lambda>t.
       concat (map (\<lambda>a.
         map (\<lambda>c. select_row t a c)
           (filter (\<lambda>c. t_category_id t = c_category_id c) cs))
         (filter (\<lambda>a. t_account_id t = a_account_id a) as))) ts)"

text \<open>
  \<^verbatim>\<open>ORDER BY t.date\<close>: ascending, a \<^verbatim>\<open>NULL\<close> date before every other (SQLite). SQL
  leaves the order of rows with the same date open; here they keep the order of the join.
\<close>

definition ts_le :: "timestamp \<Rightarrow> timestamp \<Rightarrow> bool" where
  "ts_le x y =
     (year x < year y \<or> (year x = year y \<and>
       (month x < month y \<or> (month x = month y \<and>
         (day x < day y \<or> (day x = day y \<and> nanos x \<le> nanos y))))))"

fun date_le :: "timestamp option \<Rightarrow> timestamp option \<Rightarrow> bool" where
  "date_le None _ = True"
| "date_le (Some x) None = False"
| "date_le (Some x) (Some y) = ts_le x y"

fun insert_by_date :: "row \<Rightarrow> row list \<Rightarrow> row list" where
  "insert_by_date r [] = [r]"
| "insert_by_date r (x # xs) =
     (if date_le (date r) (date x) then r # x # xs else x # insert_by_date r xs)"

definition order_by_date :: "row list \<Rightarrow> row list" where
  "order_by_date rs = foldr insert_by_date rs []"

text \<open>\<^verbatim>\<open>load_data\<close>: the query fails on a database that lacks one of the three tables.\<close>

definition load_data :: "database \<Rightarrow> error + row list" where
  "load_data db =
     (case (Transactions db, Accounts db, Categories db) of
        (Some ts, Some as, Some cs) \<Rightarrow> Inr (order_by_date (sql_join ts as cs))
      | _ \<Rightarrow> Inl DatabaseError)"

text \<open>\<^verbatim>\<open>str.lower()\<close>, on ASCII letters.\<close>

definition lower_char :: "char \<Rightarrow> char" where
  "lower_char c =
     (let i = index_of ''ABCDEFGHIJKLMNOPQRSTUVWXYZ'' c in
      if i < 26 then ''abcdefghijklmnopqrstuvwxyz'' ! i else c)"

definition str_lower :: "string \<Rightarrow> string" where
  "str_lower s = map lower_char s"

text \<open>The decimal digit of a number at the place \<open>p\<close> (1, 10, 100, ...).\<close>

definition digit_at :: "nat \<Rightarrow> nat \<Rightarrow> char" where
  "digit_at p n = ''0123456789'' ! (n div p mod 10)"

text \<open>
  Line 46: \<^verbatim>\<open>df["date"].dt.to_period("M").astype(str)\<close> is the year in four digits and the
  month in two, as in \<^verbatim>\<open>2024-01\<close>; a missing date gives the text \<^verbatim>\<open>NaT\<close>.
\<close>

fun to_period_M :: "timestamp option \<Rightarrow> string" where
  "to_period_M None = ''NaT''"
| "to_period_M (Some ts) =
     [digit_at 1000 (year ts), digit_at 100 (year ts), digit_at 10 (year ts),
      digit_at 1 (year ts), CHR ''-'', digit_at 10 (month ts), digit_at 1 (month ts)]"

text \<open>A row of the view's frame \<^verbatim>\<open>df\<close>: the seven columns of the query and \<^verbatim>\<open>year_month\<close>.\<close>

record view_row = row +
  year_month :: string

text \<open>Lines 41 and 46: the type is lower-cased, the column \<^verbatim>\<open>year_month\<close> is appended.\<close>

definition prepare :: "row list \<Rightarrow> view_row list" where
  "prepare df =
     map (\<lambda>r.
       \<lparr>transaction_id = transaction_id r, date = date r,
        account_name = account_name r, category_name = category_name r,
        type = str_lower (type r), amount = amount r, description = description r,
        year_month = to_period_M (date r)\<rparr>) df"

definition df_columns :: "string list" where
  "df_columns = query_columns @ [''year_month'']"

subsection \<open>The filter pipeline (app.py, lines 48-54 and 86-129)\<close>

text \<open>\<^verbatim>\<open>sorted(df["year_month"].unique())\<close>: the options of the month selector.\<close>

definition available_months :: "view_row list \<Rightarrow> string list" where
  "available_months df = sort (drop_duplicates (map year_month df))"

text \<open>Lines 89-90. An empty list is false in Python: the stage is skipped.\<close>

definition month_filter :: "string list \<Rightarrow> view_row list \<Rightarrow> view_row list" where
  "month_filter selected_months filtered =
     (if selected_months \<noteq> [] then filter (\<lambda>r. year_month r \<in> set selected_months) filtered
      else filtered)"

text \<open>A Python \<^verbatim>\<open>date\<close>: year, month, day; dates compare as these triples do.\<close>

type_synonym pydate = "nat \<times> nat \<times> nat"

definition dt_date :: "timestamp \<Rightarrow> pydate" where
  "dt_date ts = (year ts, month ts, day ts)"

fun pydate_le :: "pydate \<Rightarrow> pydate \<Rightarrow> bool" where
  "pydate_le (y1, m1, d1) (y2, m2, d2) =
     (y1 < y2 \<or> (y1 = y2 \<and> (m1 < m2 \<or> (m1 = m2 \<and> d1 \<le> d2))))"

text \<open>
  Lines 106-109. \<^verbatim>\<open>filtered["date"].dt.date\<close> is missing where the date is, and a comparison
  with a missing value is false.
\<close>

definition date_filter :: "pydate \<Rightarrow> pydate \<Rightarrow> view_row list \<Rightarrow> view_row list" where
  "date_filter start_date end_date filtered =
     filter (\<lambda>r. case date r of
                   None \<Rightarrow> False
                 | Some ts \<Rightarrow> pydate_le start_date (dt_date ts) \<and> pydate_le (dt_date ts) end_date)
       filtered"

text \<open>Lines 95-96: the default range, when the frame holds a date at all.\<close>

definition valid_dates :: "view_row list \<Rightarrow> pydate list" where
  "valid_dates df = concat (map (\<lambda>r. case date r of None \<Rightarrow> [] | Some ts \<Rightarrow> [dt_date ts]) df)"

definition pydate_min :: "pydate \<Rightarrow> pydate \<Rightarrow> pydate" where
  "pydate_min a b = (if pydate_le a b then a else b)"

definition pydate_max :: "pydate \<Rightarrow> pydate \<Rightarrow> pydate" where
  "pydate_max a b = (if pydate_le a b then b else a)"

definition default_range :: "view_row list \<Rightarrow> (pydate \<times> pydate) option" where
  "default_range df =
     (case valid_dates df of
        [] \<Rightarrow> None
      | d # ds \<Rightarrow> Some (fold pydate_min ds d, fold pydate_max ds d))"

text \<open>Lines 112-119.\<close>

definition category_options :: "view_row list \<Rightarrow> string list" where
  "category_options filtered = sort (drop_duplicates (map category_name filtered))"

definition category_filter :: "string list \<Rightarrow> view_row list \<Rightarrow> view_row list" where
  "category_filter selected_categories filtered =
     (if selected_categories \<noteq> []
      then filter (\<lambda>r. category_name r \<in> set selected_categories) filtered
      else filtered)"

text \<open>Lines 122-129.\<close>

definition account_options :: "view_row list \<Rightarrow> string list" where
  "account_options filtered = sort (drop_duplicates (map account_name filtered))"

definition account_filter :: "string list \<Rightarrow> view_row list \<Rightarrow> view_row list" where
  "account_filter selected_accounts filtered =
     (if selected_accounts \<noteq> []
      then filter (\<lambda>r. account_name r \<in> set selected_accounts) filtered
      else filtered)"

text \<open>What the four sidebar controls return.\<close>

record selection =
  selected_months :: "string list"
  start_date :: pydate
  end_date :: pydate
  selected_categories :: "string list"
  selected_accounts :: "string list"

text \<open>Lines 86-129: the frame \<^verbatim>\<open>filtered\<close> after the four stages.\<close>

definition apply_filters :: "selection \<Rightarrow> view_row list \<Rightarrow> view_row list" where
  "apply_filters sel df =
     account_filter (selected_accounts sel)
       (category_filter (selected_categories sel)
         (date_filter (start_date sel) (end_date sel)
           (month_filter (selected_months sel) df)))"

text \<open>The final filtered set of a session on a database.\<close>

definition session :: "database \<Rightarrow> selection \<Rightarrow> error + view_row list" where
  "session db sel =
     (case load_data db of
        Inl e \<Rightarrow> Inl e
      | Inr df \<Rightarrow> Inr (apply_filters sel (prepare df)))"

subsection \<open>Summary metrics (app.py, lines 133-135)\<close>

text \<open>\<^verbatim>\<open>Series.sum()\<close> skips missing values; the sum of no value is 0.\<close>

fun series_sum :: "rat option list \<Rightarrow> rat" where
  "series_sum [] = 0"
| "series_sum (None # xs) = series_sum xs"
| "series_sum (Some x # xs) = x + series_sum xs"

text \<open>\<^verbatim>\<open>frame[mask]\<close>: the rows where the mask holds.\<close>

definition boolean_index :: "'a list \<Rightarrow> bool list \<Rightarrow> 'a list" where
  "boolean_index df flags = map fst (filter snd (zip df flags))"

record metrics =
  income :: rat
  expenses :: rat
  net :: rat

definition summary_metrics :: "view_row list \<Rightarrow> metrics" where
  "summary_metrics filtered =
     (let income = series_sum (map amount
            (boolean_index filtered (map (\<lambda>r. type r = ''income'') filtered)));
          expenses = series_sum (map amount
            (boolean_index filtered (map (\<lambda>r. type r = ''expense'') filtered)))
      in \<lparr>income = income, expenses = expenses, net = income - expenses\<rparr>)"

subsection \<open>Export (app.py, lines 220-226)\<close>

text \<open>
  \<^verbatim>\<open>filtered.to_csv(index=False)\<close> writes a header line with the labels of the frame's
  columns and one line per row with the row's values, in column order. A line is the list
  of its values; how pandas prints a number or a timestamp is not modelled.
\<close>

datatype field =
  Label string
  | Ident cell
  | Date "timestamp option"
  | Amount "rat option"
  | Text string

definition record_of :: "view_row \<Rightarrow> field list" where
  "record_of r =
     [Ident (transaction_id r), Date (date r), Text (description r), Amount (amount r),
      Text (type r), Text (account_name r), Text (category_name r), Text (year_month r)]"

definition to_csv :: "view_row list \<Rightarrow> field list list" where
  "to_csv filtered = map Label df_columns # map record_of filtered"

section \<open>Specification-level notions\<close>


text \<open>The sum of the amounts of the rows of a given type, a missing amount counting for nothing.\<close>

definition amount_value :: "view_row \<Rightarrow> rat" where
  "amount_value r = (case amount r of None \<Rightarrow> 0 | Some x \<Rightarrow> x)"

definition sum_where_type :: "string \<Rightarrow> view_row list \<Rightarrow> rat" where
  "sum_where_type ty rs = sum_list (map amount_value (filter (\<lambda>r. type r = ty) rs))"

text \<open>
  A file's columns after the shape repair differ from the canonical header: the repair
  raised, or it left columns that are not the canonical ones.
\<close>

definition mismatch_after_repair :: "csv_file \<Rightarrow> bool" where
  "mismatch_after_repair file =
     (case shape_repair (read_csv file) of
        Inl e \<Rightarrow> True
      | Inr temp \<Rightarrow> columns temp \<noteq> EXPECTED_COLUMNS)"



section \<open>Example inputs\<close>

text \<open>
  One instance of the conversions, for the examples: dates written \<^verbatim>\<open>YYYY-MM-DD\<close>, amounts
  written as unsigned decimals.
\<close>

definition digit_val :: "char \<Rightarrow> nat option" where
  "digit_val c = (let i = index_of ''0123456789'' c in if i < 10 then Some i else None)"

fun decimal_from :: "nat \<Rightarrow> string \<Rightarrow> nat option" where
  "decimal_from acc [] = Some acc"
| "decimal_from acc (c # cs) =
     (case digit_val c of None \<Rightarrow> None | Some d \<Rightarrow> decimal_from (10 * acc + d) cs)"

definition decimal :: "string \<Rightarrow> nat option" where
  "decimal s = (if s = [] then None else decimal_from 0 s)"

definition example_to_datetime :: "cell list \<Rightarrow> cell \<Rightarrow> timestamp option" where
  "example_to_datetime col c =
     (case c of
        Str s \<Rightarrow>
          (if length s = 10 \<and> s ! 4 = CHR ''-'' \<and> s ! 7 = CHR ''-'' then
             (case (decimal (take 4 s), decimal (take 2 (drop 5 s)), decimal (drop 8 s)) of
                (Some y, Some m, Some d) \<Rightarrow> Some \<lparr>year = y, month = m, day = d, nanos = 0\<rparr>
              | _ \<Rightarrow> None)
           else None)
      | _ \<Rightarrow> None)"

definition example_to_numeric :: "cell \<Rightarrow> rat option" where
  "example_to_numeric c =
     (case c of
        Num q \<Rightarrow> Some q
      | Str s \<Rightarrow>
          (let whole = takeWhile (\<lambda>c. c \<noteq> CHR ''.'') s;
               frac = drop (Suc (length whole)) s
           in case (decimal whole, decimal_from 0 frac) of
                (Some w, Some f) \<Rightarrow> Some (of_nat w + of_nat f / 10 ^ length frac)
              | _ \<Rightarrow> None)
      | _ \<Rightarrow> None)"

text \<open>No example holds a number in a text column, so \<open>str_num\<close> is never applied.\<close>

definition example_conv :: conversions where
  "example_conv =
     \<lparr>to_datetime = example_to_datetime, to_numeric = example_to_numeric,
      str_num = (\<lambda>q. ''0.0'')\<rparr>"

text \<open>
  A regularly shaped file. Its third row has a date that does not parse, no account name
  and no amount; the account of its second row has a trailing blank, its type a capital.
\<close>

definition Jan_csv :: csv_file where
  "Jan_csv =
     \<lparr>name = ''Jan.csv'',
      read_csv = \<lparr>columns = EXPECTED_COLUMNS,
        rows =
          [[Num 1, Str ''2024-01-05'', Str ''Checking'', Str ''Groceries'', Str ''expense'',
            Num 50, Str ''milk''],
           [Num 2, Str ''2024-01-10'', Str ''Checking '', Str ''Salary'', Str ''Income'',
            Num 2000, Str ''pay''],
           [Num 3, Str ''soon'', NaN, Str ''Groceries'', Str ''expense'',
            NaN, Str ''bread'']]\<rparr>\<rparr>"


text \<open>A file of one column that is not a collapsed export.\<close>

definition notes_csv :: csv_file where
  "notes_csv =
     \<lparr>name = ''notes.csv'',
      read_csv = \<lparr>columns = [''note''], rows = [[Str ''rent is due'']]\<rparr>\<rparr>"

text \<open>A file of six columns.\<close>

definition six_csv :: csv_file where
  "six_csv =
     \<lparr>name = ''six.csv'',
      read_csv = \<lparr>columns = take 6 EXPECTED_COLUMNS,
        rows = [[Num 1, Str ''2024-01-05'', Str ''Checking'', Str ''Groceries'',
                 Str ''expense'', Num 50]]\<rparr>\<rparr>"


definition example_df :: "row list" where
  "example_df =
     [\<lparr>transaction_id = Num 1,
       date = Some \<lparr>year = 2024, month = 1, day = 5, nanos = 0\<rparr>,
       account_name = ''Checking'', category_name = ''Groceries'',
       type = ''expense'', amount = Some 50, description = ''milk''\<rparr>,
      \<lparr>transaction_id = Num 2,
       date = Some \<lparr>year = 2024, month = 1, day = 10, nanos = 0\<rparr>,
       account_name = ''Checking'', category_name = ''Salary'',
       type = ''Income'', amount = Some 2000, description = ''pay''\<rparr>,
      \<lparr>transaction_id = Num 3, date = None,
       account_name = ''nan'', category_name = ''Groceries'',
       type = ''expense'', amount = None, description = ''bread''\<rparr>,
      \<lparr>transaction_id = Str ''3'',
       date = Some \<lparr>year = 2024, month = 2, day = 15, nanos = 0\<rparr>,
       account_name = ''Checking'', category_name = ''Dining'',
       type = ''expense'', amount = Some (45 / 2), description = ''lunch''\<rparr>,
      \<lparr>transaction_id = Str ''4'',
       date = Some \<lparr>year = 2024, month = 2, day = 20, nanos = 0\<rparr>,
       account_name = [], category_name = ''Salary'',
       type = ''income'', amount = Some 2000, description = ''pay''\<rparr>,
      \<lparr>transaction_id = Str ''5'',
       date = Some \<lparr>year = 2024, month = 2, day = 21, nanos = 0\<rparr>,
       account_name = ''None'', category_name = ''None'',
       type = ''None'', amount = None, description = ''None''\<rparr>]"


text \<open>The database a run on \<open>Jan_csv\<close> and \<open>Feb_csv\<close> writes.\<close>

definition example_accounts :: "account list" where
  "example_accounts =
     [\<lparr>a_account_name = ''Checking'', a_account_id = 1\<rparr>,
      \<lparr>a_account_name = ''nan'', a_account_id = 2\<rparr>,
      \<lparr>a_account_name = [], a_account_id = 3\<rparr>,
      \<lparr>a_account_name = ''None'', a_account_id = 4\<rparr>]"

definition example_categories :: "category list" where
  "example_categories =
     [\<lparr>c_category_name = ''Groceries'', c_category_id = 1\<rparr>,
      \<lparr>c_category_name = ''Salary'', c_category_id = 2\<rparr>,
      \<lparr>c_category_name = ''Dining'', c_category_id = 3\<rparr>,
      \<lparr>c_category_name = ''None'', c_category_id = 4\<rparr>]"

definition example_transactions :: "transaction list" where
  "example_transactions =
     [\<lparr>t_transaction_id = Num 1,
       t_date = Some \<lparr>year = 2024, month = 1, day = 5, nanos = 0\<rparr>,
       t_type = ''expense'', t_amount = Some 50, t_description = ''milk'',
       t_account_id = 1, t_category_id = 1\<rparr>,
      \<lparr>t_transaction_id = Num 2,
       t_date = Some \<lparr>year = 2024, month = 1, day = 10, nanos = 0\<rparr>,
       t_type = ''Income'', t_amount = Some 2000, t_description = ''pay'',
       t_account_id = 1, t_category_id = 2\<rparr>,
      \<lparr>t_transaction_id = Num 3, t_date = None,
       t_type = ''expense'', t_amount = None, t_description = ''bread'',
       t_account_id = 2, t_category_id = 1\<rparr>,
      \<lparr>t_transaction_id = Str ''3'',
       t_date = Some \<lparr>year = 2024, month = 2, day = 15, nanos = 0\<rparr>,
       t_type = ''expense'', t_amount = Some (45 / 2), t_description = ''lunch'',
       t_account_id = 1, t_category_id = 3\<rparr>,
      \<lparr>t_transaction_id = Str ''4'',
       t_date = Some \<lparr>year = 2024, month = 2, day = 20, nanos = 0\<rparr>,
       t_type = ''income'', t_amount = Some 2000, t_description = ''pay'',
       t_account_id = 3, t_category_id = 2\<rparr>,
      \<lparr>t_transaction_id = Str ''5'',
       t_date = Some \<lparr>year = 2024, month = 2, day = 21, nanos = 0\<rparr>,
       t_type = ''None'', t_amount = None, t_description = ''None'',
       t_account_id = 4, t_category_id = 4\<rparr>]"

definition example_db :: database where
  "example_db =
     \<lparr>Accounts = Some example_accounts, Categories = Some example_categories,
      Transactions = Some example_transactions\<rparr>"

text \<open>What \<^verbatim>\<open>load_data\<close> returns on \<open>example_db\<close>, and the view's frame \<^verbatim>\<open>df\<close>.\<close>

definition example_loaded :: "row list" where
  "example_loaded =
     [\<lparr>transaction_id = Num 3, date = None,
       account_name = ''nan'', category_name = ''Groceries'',
       type = ''expense'', amount = None, description = ''bread''\<rparr>,
      \<lparr>transaction_id = Num 1,
       date = Some \<lparr>year = 2024, month = 1, day = 5, nanos = 0\<rparr>,
       account_name = ''Checking'', category_name = ''Groceries'',
       type = ''expense'', amount = Some 50, description = ''milk''\<rparr>,
      \<lparr>transaction_id = Num 2,
       date = Some \<lparr>year = 2024, month = 1, day = 10, nanos = 0\<rparr>,
       account_name = ''Checking'', category_name = ''Salary'',
       type = ''Income'', amount = Some 2000, description = ''pay''\<rparr>,
      \<lparr>transaction_id = Str ''3'',
       date = Some \<lparr>year = 2024, month = 2, day = 15, nanos = 0\<rparr>,
       account_name = ''Checking'', category_name = ''Dining'',
       type = ''expense'', amount = Some (45 / 2), description = ''lunch''\<rparr>,
      \<lparr>transaction_id = Str ''4'',
       date = Some \<lparr>year = 2024, month = 2, day = 20, nanos = 0\<rparr>,
       account_name = [], category_name = ''Salary'',
       type = ''income'', amount = Some 2000, description = ''pay''\<rparr>,
      \<lparr>transaction_id = Str ''5'',
       date = Some \<lparr>year = 2024, month = 2, day = 21, nanos = 0\<rparr>,
       account_name = ''None'', category_name = ''None'',
       type = ''None'', amount = None, description = ''None''\<rparr>]"

definition undated_row :: view_row where
  "undated_row =
     \<lparr>transaction_id = Num 3, date = None,
      account_name = ''nan'', category_name = ''Groceries'',
      type = ''expense'', amount = None, description = ''bread'',
      year_month = ''NaT''\<rparr>"

definition january_rows :: "view_row list" where
  "january_rows =
     [\<lparr>transaction_id = Num 1,
       date = Some \<lparr>year = 2024, month = 1, day = 5, nanos = 0\<rparr>,
       account_name = ''Checking'', category_name = ''Groceries'',
       type = ''expense'', amount = Some 50, description = ''milk'',
       year_month = ''2024-01''\<rparr>,
      \<lparr>transaction_id = Num 2,
       date = Some \<lparr>year = 2024, month = 1, day = 10, nanos = 0\<rparr>,
       account_name = ''Checking'', category_name = ''Salary'',
       type = ''income'', amount = Some 2000, description = ''pay'',
       year_month = ''2024-01''\<rparr>]"

definition february_rows :: "view_row list" where
  "february_rows =
     [\<lparr>transaction_id = Str ''3'',
       date = Some \<lparr>year = 2024, month = 2, day = 15, nanos = 0\<rparr>,
       account_name = ''Checking'', category_name = ''Dining'',
       type = ''expense'', amount = Some (45 / 2), description = ''lunch'',
       year_month = ''2024-02''\<rparr>,
      \<lparr>transaction_id = Str ''4'',
       date = Some \<lparr>year = 2024, month = 2, day = 20, nanos = 0\<rparr>,
       account_name = [], category_name = ''Salary'',
       type = ''income'', amount = Some 2000, description = ''pay'',
       year_month = ''2024-02''\<rparr>,
      \<lparr>transaction_id = Str ''5'',
       date = Some \<lparr>year = 2024, month = 2, day = 21, nanos = 0\<rparr>,
       account_name = ''None'', category_name = ''None'',
       type = ''none'', amount = None, description = ''None'',
       year_month = ''2024-02''\<rparr>]"

definition example_view :: "view_row list" where
  "example_view = undated_row # january_rows @ february_rows"

text \<open>
  Two selections: every month option with the default date range, and the month of
  January only.
\<close>

definition select_all :: selection where
  "select_all =
     \<lparr>selected_months = [''2024-01'', ''2024-02'', ''NaT''],
      start_date = (2024, 1, 5), end_date = (2024, 2, 21),
      selected_categories = [], selected_accounts = []\<rparr>"

definition january :: selection where
  "january =
     \<lparr>selected_months = [''2024-01''],
      start_date = (2024, 1, 5), end_date = (2024, 2, 21),
      selected_categories = [], selected_accounts = []\<rparr>"

section \<open>Properties\<close>

subsection \<open>First occurrences\<close>

lemma set_unique_from: "set (unique_from seen xs) = set xs - set seen"
  by (induction xs arbitrary: seen) auto


lemma set_drop_duplicates: "set (drop_duplicates xs) = set xs"
  by (simp add: drop_duplicates_def set_unique_from)





subsection \<open>The dimension frames\<close>






subsection \<open>A join on a key that is unique and present\<close>




subsection \<open>The two merges\<close>








subsection \<open>Loading\<close>




lemma load_files_Inl:
  assumes "file \<in> set csv_files" and "load_file file = Inl e"
  shows "\<exists>e'. load_files csv_files = Inl e'"
  using assms by (induction csv_files) (auto split: sum.splits)


subsection \<open>The run\<close>

lemma mismatch_iff_load_file:
  "mismatch_after_repair file \<longleftrightarrow> (\<exists>e. load_file file = Inl e)"
  by (auto simp: mismatch_after_repair_def load_file_def split: sum.splits)



subsection \<open>The example run\<close>


lemma load_Jan: "load_file Jan_csv = Inr (read_csv Jan_csv)"
  by (simp add: load_file_def shape_repair_def Jan_csv_def EXPECTED_COLUMNS_def)


lemma load_six: "load_file six_csv = Inl (ColumnMismatch ''six.csv'')"
  by (simp add: load_file_def shape_repair_def six_csv_def EXPECTED_COLUMNS_def)

lemma load_notes: "load_file notes_csv = Inl (LengthMismatch 1 7)"
  by (simp add: load_file_def shape_repair_def notes_csv_def EXPECTED_COLUMNS_def
      cell_at_def numeric_dtype_def str_split_expand_def max_len_def Let_def)







subsection \<open>Ingestion\<close>



text \<open>
  Claim C2. When there is no input file, or when the columns of some file differ from the
  canonical header after the shape repair, the run ends with an exception and leaves the
  database as it found it: none of the three tables is written, whatever the other files
  are.
\<close>

theorem C2_all_or_nothing:
  assumes "csv_files = [] \<or> (\<exists>file \<in> set csv_files. mismatch_after_repair file)"
  shows "\<exists>e. main P csv_files db = (Inl e, db)"
proof (cases "csv_files = []")
  case True
  then show ?thesis by (simp add: main_def build_def load_and_clean_def)
next
  case False
  with assms obtain bad where f: "bad \<in> set csv_files" "mismatch_after_repair bad"
    by blast
  from f(2) obtain e where "load_file bad = Inl e"
    unfolding mismatch_iff_load_file ..
  from load_files_Inl [OF f(1) this] obtain e' where "load_files csv_files = Inl e'" ..
  with False show ?thesis by (simp add: main_def build_def load_and_clean_def)
qed

text \<open>
  The theorem at a batch of a well-formed file and a file of six columns, run on a
  database that holds tables already, and at the empty batch.
\<close>

theorem C2_all_or_nothing_witness:
  "([Jan_csv, six_csv] = [] \<or> (\<exists>file \<in> set [Jan_csv, six_csv]. mismatch_after_repair file)) \<and>
   main example_conv [Jan_csv, six_csv] example_db = (Inl (ColumnMismatch ''six.csv''), example_db) \<and>
   main example_conv [] example_db = (Inl FileNotFoundError, example_db)"
proof -
  have m: "mismatch_after_repair six_csv"
    by (simp add: mismatch_iff_load_file load_six)
  then have h: "[Jan_csv, six_csv] = [] \<or>
      (\<exists>file \<in> set [Jan_csv, six_csv]. mismatch_after_repair file)"
    by simp
  from C2_all_or_nothing [OF h, of example_conv example_db]
  obtain e where "main example_conv [Jan_csv, six_csv] example_db = (Inl e, example_db)" ..
  moreover have "fst (main example_conv [Jan_csv, six_csv] example_db) =
      Inl (ColumnMismatch ''six.csv'')"
    by (simp add: main_def build_def load_and_clean_def load_Jan load_six)
  moreover have "main example_conv [] example_db = (Inl FileNotFoundError, example_db)"
    by (simp add: main_def build_def load_and_clean_def)
  ultimately show ?thesis using h by simp
qed







subsection \<open>Shape repair and the error it raises\<close>

lemma split_example:
  "split_comma ''3,2024-01-15,Checking,Dining,expense,22.50,lunch'' =
     [''3'', ''2024-01-15'', ''Checking'', ''Dining'', ''expense'', ''22.50'', ''lunch'']"
  by simp

text \<open>
  A frame of one column of strings whose longest row has seven fields is repaired: the
  column is split and the canonical header is put on the seven columns.
\<close>

lemma repair_collapsed:
  assumes "length (columns temp) = 1"
    and "\<not> numeric_dtype (map (\<lambda>r. cell_at r 0) (rows temp))"
    and "max_len (map str_split (map (\<lambda>r. cell_at r 0) (rows temp))) = 7"
  shows "shape_repair temp =
           Inr \<lparr>columns = EXPECTED_COLUMNS,
                rows = str_split_expand (map (\<lambda>r. cell_at r 0) (rows temp))\<rparr>"
  using assms by (simp add: shape_repair_def Let_def EXPECTED_COLUMNS_def)

lemma collapsed_row_example:
  "str_split_expand [Str ''3,2024-01-15,Checking,Dining,expense,22.50,lunch''] =
     [[Str ''3'', Str ''2024-01-15'', Str ''Checking'', Str ''Dining'', Str ''expense'',
       Str ''22.50'', Str ''lunch'']]"
  by (simp add: str_split_expand_def max_len_def Let_def)

text \<open>
  A file of several columns that are not the canonical ones is refused with the error
  that names it.
\<close>

lemma column_mismatch_named:
  assumes "length (columns (read_csv file)) \<noteq> 1"
    and "columns (read_csv file) \<noteq> EXPECTED_COLUMNS"
  shows "load_file file = Inl (ColumnMismatch (name file))"
  using assms by (simp add: load_file_def shape_repair_def)

text \<open>
  Claim C5. The claim asks that every file whose columns mismatch the canonical header
  after the repair is refused with the error that names the file. The file
  \<^verbatim>\<open>notes.csv\<close> has one column, and its row splits into one field, not seven: the run
  ends at line 33, in the assignment of the seven labels, with the length mismatch error
  of pandas, which does not name the file; line 36, which would name it, is not reached.
\<close>

theorem C5_length_mismatch_unnamed:
  "length (columns (read_csv notes_csv)) = 1 \<and>
   mismatch_after_repair notes_csv \<and>
   main example_conv [notes_csv] example_db = (Inl (LengthMismatch 1 7), example_db) \<and>
   LengthMismatch 1 7 \<noteq> ColumnMismatch (name notes_csv)"
proof -
  have "mismatch_after_repair notes_csv"
    by (simp add: mismatch_iff_load_file load_notes)
  moreover have "length (columns (read_csv notes_csv)) = 1"
    by (simp add: notes_csv_def)
  moreover have "main example_conv [notes_csv] example_db =
      (Inl (LengthMismatch 1 7), example_db)"
    by (simp add: main_def build_def load_and_clean_def load_notes)
  ultimately show ?thesis by simp
qed

subsection \<open>The text columns\<close>








subsection \<open>Loading the view\<close>

lemma set_insert_by_date: "set (insert_by_date r xs) = insert r (set xs)"
  by (induction xs) auto

lemma set_order_by_date: "set (order_by_date rs) = set rs"
  by (induction rs) (simp_all add: order_by_date_def set_insert_by_date)

subsection \<open>The stages\<close>

lemma set_sort_drop_duplicates: "set (sort (drop_duplicates xs)) = set xs"
  by (simp add: set_drop_duplicates)

lemma filter_all_options: "filter (\<lambda>r. f r \<in> set (sort (drop_duplicates (map f rs)))) rs = rs"
  by (simp add: set_drop_duplicates)

lemma month_filter_subset: "set (month_filter sel rs) \<subseteq> set rs"
  by (auto simp: month_filter_def)

lemma category_filter_subset: "set (category_filter sel rs) \<subseteq> set rs"
  by (auto simp: category_filter_def)

lemma account_filter_subset: "set (account_filter sel rs) \<subseteq> set rs"
  by (auto simp: account_filter_def)

lemma date_filter_subset: "set (date_filter s e rs) \<subseteq> set rs"
  by (auto simp: date_filter_def)

lemma date_filter_dated: "r \<in> set (date_filter s e rs) \<Longrightarrow> date r \<noteq> None"
  by (auto simp: date_filter_def split: option.splits)

lemma apply_filters_dated:
  assumes "r \<in> set (apply_filters sel df)"
  shows "date r \<noteq> None"
proof -
  from assms have "r \<in> set (date_filter (start_date sel) (end_date sel)
      (month_filter (selected_months sel) df))"
    unfolding apply_filters_def
    using account_filter_subset category_filter_subset by blast
  then show ?thesis by (rule date_filter_dated)
qed

lemma apply_filters_subset: "set (apply_filters sel df) \<subseteq> set df"
  unfolding apply_filters_def
  using account_filter_subset category_filter_subset date_filter_subset month_filter_subset
  by blast

lemma prepare_year_month: "r \<in> set (prepare df) \<Longrightarrow> year_month r = to_period_M (date r)"
  by (auto simp: prepare_def)

subsection \<open>Sums\<close>

lemma boolean_index_filter: "boolean_index rs (map p rs) = filter p rs"
  by (induction rs) (simp_all add: boolean_index_def)

lemma series_sum_amounts: "series_sum (map amount rs) = sum_list (map amount_value rs)"
proof (induction rs)
  case Nil
  then show ?case by simp
next
  case (Cons r rs)
  then show ?case by (cases "amount r") (simp_all add: amount_value_def)
qed


subsection \<open>The example session\<close>

lemma sql_join_example:
  "sql_join example_transactions example_accounts example_categories = example_df"
  by (simp add: sql_join_def select_row_def example_transactions_def example_accounts_def
      example_categories_def example_df_def)

lemma order_example: "order_by_date example_df = example_loaded"
  by (simp add: order_by_date_def example_df_def example_loaded_def ts_le_def)

lemma load_data_example: "load_data example_db = Inr example_loaded"
  by (simp add: load_data_def example_db_def sql_join_example order_example)

lemma prepare_example: "prepare example_loaded = example_view"
  by (simp add: prepare_def example_loaded_def example_view_def undated_row_def
      january_rows_def february_rows_def str_lower_def lower_char_def Let_def digit_at_def)

lemma available_months_example:
  "available_months example_view = [''2024-01'', ''2024-02'', ''NaT'']"
  by (simp add: available_months_def example_view_def undated_row_def january_rows_def
      february_rows_def drop_duplicates_def less_eq_char_def less_char_def)

lemma default_range_example:
  "default_range example_view = Some ((2024, 1, 5), (2024, 2, 21))"
  by (simp add: default_range_def valid_dates_def example_view_def undated_row_def
      january_rows_def february_rows_def dt_date_def pydate_min_def pydate_max_def)

lemma filters_select_all: "apply_filters select_all example_view = january_rows @ february_rows"
  by (simp add: apply_filters_def select_all_def example_view_def undated_row_def
      january_rows_def february_rows_def month_filter_def date_filter_def category_filter_def
      account_filter_def dt_date_def)

lemma filters_january: "apply_filters january example_view = january_rows"
  by (simp add: apply_filters_def january_def example_view_def undated_row_def
      january_rows_def february_rows_def month_filter_def date_filter_def category_filter_def
      account_filter_def dt_date_def)

lemma session_select_all: "session example_db select_all = Inr (january_rows @ february_rows)"
  by (simp add: session_def load_data_example prepare_example filters_select_all)

lemma session_january: "session example_db january = Inr january_rows"
  by (simp add: session_def load_data_example prepare_example filters_january)

lemma metrics_january:
  "summary_metrics january_rows = \<lparr>income = 2000, expenses = 50, net = 1950\<rparr>"
  by (simp add: summary_metrics_def boolean_index_def january_rows_def)


subsection \<open>The reporting view\<close>

text \<open>
  Claim C7. In each of the three multi-select stages (months, categories, accounts) the
  empty selection returns the stage's input unchanged, and so does the selection of all
  the options the stage offers for this input.
\<close>

theorem C7_select_all:
  "month_filter [] rs = rs \<and> month_filter (available_months rs) rs = rs \<and>
   category_filter [] rs = rs \<and> category_filter (category_options rs) rs = rs \<and>
   account_filter [] rs = rs \<and> account_filter (account_options rs) rs = rs"
  by (simp add: month_filter_def available_months_def category_filter_def category_options_def
      account_filter_def account_options_def set_drop_duplicates)

text \<open>The theorem at the frame of the example database, whose month options include \<^verbatim>\<open>NaT\<close>.\<close>

theorem C7_select_all_witness:
  "available_months example_view = [''2024-01'', ''2024-02'', ''NaT''] \<and>
   month_filter [''2024-01'', ''2024-02'', ''NaT''] example_view = example_view \<and>
   month_filter [] example_view = example_view"
  using C7_select_all [of example_view] by (simp add: available_months_example)

text \<open>
  Claim C8. For every selection, the total income over the final filtered set is the sum
  of the amounts of its rows of type \<^verbatim>\<open>income\<close>, the total expenses the sum of the amounts
  of its rows of type \<^verbatim>\<open>expense\<close>, and the net metric is the first minus the second; the
  types compared are the loaded types in lower case. (Amounts are exact rationals here.)
\<close>

theorem C8_metrics:
  "income (summary_metrics (apply_filters sel (prepare df))) =
     sum_where_type ''income'' (apply_filters sel (prepare df)) \<and>
   expenses (summary_metrics (apply_filters sel (prepare df))) =
     sum_where_type ''expense'' (apply_filters sel (prepare df)) \<and>
   net (summary_metrics (apply_filters sel (prepare df))) =
     income (summary_metrics (apply_filters sel (prepare df))) -
     expenses (summary_metrics (apply_filters sel (prepare df))) \<and>
   map type (prepare df) = map (\<lambda>r. str_lower (type r)) df"
  by (simp add: summary_metrics_def Let_def boolean_index_filter series_sum_amounts
      sum_where_type_def prepare_def comp_def)

text \<open>
  The theorem at the example database with January selected: income 2000 (a row loaded
  with the type \<^verbatim>\<open>Income\<close>), expenses 50, net 1950.
\<close>

theorem C8_metrics_witness:
  "apply_filters january (prepare example_loaded) = january_rows \<and>
   summary_metrics january_rows = \<lparr>income = 2000, expenses = 50, net = 1950\<rparr> \<and>
   sum_where_type ''income'' january_rows = 2000 \<and>
   sum_where_type ''expense'' january_rows = 50 \<and>
   map type example_loaded ! 2 = ''Income''"
proof -
  have f: "apply_filters january (prepare example_loaded) = january_rows"
    by (simp add: prepare_example filters_january)
  from C8_metrics [of january example_loaded]
  have "sum_where_type ''income'' january_rows = 2000 \<and>
        sum_where_type ''expense'' january_rows = 50"
    by (simp add: f metrics_january)
  moreover have "map type example_loaded ! 2 = ''Income''"
    by (simp add: example_loaded_def)
  ultimately show ?thesis by (simp add: f metrics_january)
qed

text \<open>
  Claim C9. Whatever the selection, no row of the final filtered set of a session has a
  missing date: the date-range stage drops every such row, so none reaches the metrics,
  the charts, the top-5 list, the table or the export, which are all computed from the
  filtered set.
\<close>

theorem C9_null_dates_excluded:
  assumes "session db sel = Inr filtered" and "r \<in> set filtered"
  shows "date r \<noteq> None"
proof -
  from assms(1) obtain df where "filtered = apply_filters sel (prepare df)"
    by (auto simp: session_def split: sum.splits)
  with assms(2) show ?thesis by (simp add: apply_filters_dated)
qed

text \<open>
  The theorem at the example database, with every month option selected (\<^verbatim>\<open>NaT\<close> too) and
  the default date range: the third transaction of the table has no date, its row is in
  the view's frame and not in the filtered set.
\<close>

theorem C9_null_dates_excluded_witness:
  "session example_db select_all = Inr (january_rows @ february_rows) \<and>
   hd january_rows \<in> set (january_rows @ february_rows) \<and>
   date (hd january_rows) \<noteq> None \<and>
   map t_date example_transactions ! 2 = None \<and>
   date undated_row = None \<and>
   undated_row \<in> set (prepare example_loaded) \<and>
   undated_row \<notin> set (january_rows @ february_rows) \<and>
   selected_months select_all = available_months (prepare example_loaded) \<and>
   default_range (prepare example_loaded) = Some (start_date select_all, end_date select_all)"
proof -
  have m: "hd january_rows \<in> set (january_rows @ february_rows)"
    by (simp add: january_rows_def)
  from C9_null_dates_excluded [OF session_select_all m]
  have "date (hd january_rows) \<noteq> None" .
  moreover have "date undated_row = None" by (simp add: undated_row_def)
  moreover have "undated_row \<notin> set (january_rows @ february_rows)"
    using C9_null_dates_excluded [OF session_select_all, of undated_row]
    by (auto simp: undated_row_def)
  moreover have "map t_date example_transactions ! 2 = None"
    by (simp add: example_transactions_def)
  moreover have "undated_row \<in> set (prepare example_loaded)"
    by (simp add: prepare_example example_view_def)
  moreover have "selected_months select_all = available_months (prepare example_loaded)"
    by (simp add: prepare_example available_months_example select_all_def)
  moreover have "default_range (prepare example_loaded) =
      Some (start_date select_all, end_date select_all)"
    by (simp add: prepare_example default_range_example select_all_def)
  ultimately show ?thesis using m by (simp add: session_select_all)
qed

text \<open>
  Claim C6, as stated, fails: the header of the export is not the column list of the load
  query, and the year-month bucket is exported, as the last value of every line. Line 46
  adds the column \<^verbatim>\<open>year_month\<close> to \<^verbatim>\<open>df\<close> before line 86 copies \<^verbatim>\<open>df\<close> into
  \<^verbatim>\<open>filtered\<close>.
\<close>

theorem C6_counterexample:
  "session example_db january = Inr january_rows \<and>
   hd (to_csv january_rows) \<noteq> map Label query_columns \<and>
   Label ''year_month'' \<in> set (hd (to_csv january_rows)) \<and>
   map last (tl (to_csv january_rows)) = [Text ''2024-01'', Text ''2024-01'']"
  by (simp add: session_january to_csv_def df_columns_def query_columns_def record_of_def
      january_rows_def)

text \<open>
  Claim C6, as the code has it. For every selection the export has a header line and one
  line per row of the final filtered set, in order; its columns are the seven columns of
  the load query, in the order of the query, followed by the column \<^verbatim>\<open>year_month\<close>, which
  holds the year-month bucket of the row's date.
\<close>

theorem C6_export:
  assumes "session db sel = Inr filtered"
  shows "length (to_csv filtered) = Suc (length filtered) \<and>
         hd (to_csv filtered) = map Label (query_columns @ [''year_month'']) \<and>
         map (take 7) (tl (to_csv filtered)) =
           map (\<lambda>r. [Ident (transaction_id r), Date (date r), Text (description r),
                      Amount (amount r), Text (type r), Text (account_name r),
                      Text (category_name r)]) filtered \<and>
         map (drop 7) (tl (to_csv filtered)) =
           map (\<lambda>r. [Text (to_period_M (date r))]) filtered"
proof -
  from assms obtain df where f: "filtered = apply_filters sel (prepare df)"
    by (auto simp: session_def split: sum.splits)
  have "year_month r = to_period_M (date r)" if "r \<in> set filtered" for r
    using that apply_filters_subset [of sel "prepare df"] prepare_year_month [of r df]
    by (auto simp: f)
  then have "map (drop 7) (map record_of filtered) =
             map (\<lambda>r. [Text (to_period_M (date r))]) filtered"
    by (simp add: record_of_def)
  then show ?thesis
    by (simp add: to_csv_def df_columns_def record_of_def comp_def)
qed

text \<open>The theorem at the example database with January selected.\<close>

theorem C6_export_witness:
  "session example_db january = Inr january_rows \<and>
   length (to_csv january_rows) = 3 \<and>
   hd (to_csv january_rows) =
     [Label ''transaction_id'', Label ''date'', Label ''description'', Label ''amount'',
      Label ''type'', Label ''account_name'', Label ''category_name'', Label ''year_month'']"
proof -
  from C6_export [OF session_january]
  have "length (to_csv january_rows) = Suc (length january_rows)"
    and "hd (to_csv january_rows) = map Label (query_columns @ [''year_month''])"
    by simp_all
  then show ?thesis
    by (simp add: session_january query_columns_def january_rows_def)
qed


end
